theory Spec2Isabelle
  imports Complex_Main "HOL-Library.Sublist" "HOL-Library.AList"
begin

section \<open>The extraction schema (main.py, lines 29 to 98)\<close>

text \<open>
  The pydantic models of the source, one record per class. A subclass is a record
  extension of its base class. Python integers are unbounded, so \<open>year\<close> and the page
  numbers are \<open>int\<close>. The program never computes with a float: it stores it, tests it
  against \<open>None\<close> and converts it to text. The type of float values is therefore the type
  parameter \<open>'f\<close>, and the conversion of a float to text (Python's \<open>str\<close>, which pandas
  also uses on an object column) is a parameter \<open>fstr\<close> of every function that prints one.
  An \<open>Optional[float]\<close> is an \<open>'f option\<close>, with \<open>None\<close> for Python's \<open>None\<close>.
\<close>

datatype quality_grade = high | medium | low

datatype metrics_type = actual | forecast

record ExtractedData =
  pages :: "int list"
  quality :: quality_grade

record 'f FinancialMetrics =
  year :: int
  revenue :: "'f option"
  ebitda :: "'f option"
  margin :: "'f option"
  debt :: "'f option"
  type_m :: metrics_type

record 'f FinancialData = ExtractedData +
  data :: "'f FinancialMetrics list"
  currency :: string

record 'f Financials =
  financial_data :: "'f FinancialData"

text \<open>
  \<open>CompanyName\<close>, \<open>CompanyDescription\<close>, \<open>CompanyStrategy\<close>, \<open>CompanyBusinessModel\<close>,
  \<open>CompanyMarket\<close>, \<open>CompanyClients\<close> and \<open>CompanyProducts\<close> all extend \<open>ExtractedData\<close>
  with the one field \<open>value: str\<close>; they share one record here.
\<close>

record ExtractedValue = ExtractedData +
  "value" :: string

type_synonym CompanyName = ExtractedValue
type_synonym CompanyDescription = ExtractedValue
type_synonym CompanyStrategy = ExtractedValue
type_synonym CompanyBusinessModel = ExtractedValue
type_synonym CompanyMarket = ExtractedValue
type_synonym CompanyClients = ExtractedValue
type_synonym CompanyProducts = ExtractedValue

record Employee = ExtractedData +
  employee_name :: string
  role :: string
  employee_description :: string

record TopManagement =
  employees :: "Employee list"
  management_pages :: "int list"

record 'f CompanyBase =
  name :: CompanyName
  description :: CompanyDescription
  strategy :: CompanyStrategy
  business_model :: CompanyBusinessModel
  market :: CompanyMarket
  clients :: CompanyClients
  products :: CompanyProducts
  top_management :: TopManagement
  financials :: "'f Financials"

record 'f Company = "'f CompanyBase" +
  id_field :: string

section \<open>Text of an integer\<close>

text \<open>
  Python's \<open>str\<close> of an \<open>int\<close> (the \<open>f"{y}"\<close> of the table header, and the column
  labels pandas writes): the decimal digits, with a minus sign for a negative number.
\<close>

definition digit_char :: "nat \<Rightarrow> char" where
  "digit_char d = ''0123456789'' ! d"

fun digits :: "nat \<Rightarrow> string" where
  "digits n = (if n < 10 then [digit_char n] else digits (n div 10) @ [digit_char (n mod 10)])"

declare digits.simps [simp del]

definition str_int :: "int \<Rightarrow> string" where
  "str_int i = (if i < 0 then CHR ''-'' # digits (nat (- i)) else digits (nat i))"

section \<open>The display table of FinancialData (main.py, lines 140 to 150)\<close>

text \<open>
  The \<open>__ft__\<close> of \<open>FinancialData\<close> builds a \<open>Table\<close> of \<open>Tr\<close> rows of \<open>Th\<close> and \<open>Td\<close> cells,
  with a caption. \<open>sorted(set(...))\<close> is the ascending list of the distinct years;
  \<open>next((... for d in self.data if ...), "-")\<close> takes the first point of the stored list
  that passes the test, and \<open>"-"\<close> when none does; \<open>any(...)\<close> is \<open>list_ex\<close>.
\<close>

datatype ft_cell = Th string | Td string

record ft_table =
  rows :: "ft_cell list list"
  caption :: string

text \<open>
  The rule of the specification, in its own words: the displayed value of a metric for a
  year is the first non-null value found by scanning the points of that year in their
  stored order. It is compared below with \<open>metric_cell\<close>, which follows the source.
\<close>

fun first_non_null ::
  "('f FinancialMetrics \<Rightarrow> 'f option) \<Rightarrow> int \<Rightarrow> 'f FinancialMetrics list \<Rightarrow> 'f option" where
  "first_non_null metric y [] = None"
| "first_non_null metric y (d # ds) =
     (if year d = y
      then (case metric d of Some v \<Rightarrow> Some v | None \<Rightarrow> first_non_null metric y ds)
      else first_non_null metric y ds)"

definition displayed :: "('f \<Rightarrow> string) \<Rightarrow> 'f option \<Rightarrow> string" where
  "displayed fstr v = (case v of Some x \<Rightarrow> fstr x | None \<Rightarrow> ''-'')"

text \<open>
  Python's \<open>str\<close> of a float that holds a whole number below \<open>10^16\<close> in absolute
  value: the digits of the number, then \<open>.0\<close>. It stands for \<open>fstr\<close> in the closed
  examples only, on 50, 100, 110 and 120.
\<close>

definition str_float_whole :: "real \<Rightarrow> string" where
  "str_float_whole x = str_int \<lfloor>x\<rfloor> @ ''.0''"

definition point :: "int \<Rightarrow> 'f option \<Rightarrow> metrics_type \<Rightarrow> 'f FinancialMetrics" where
  "point y r t = \<lparr>year = y, revenue = r, ebitda = None, margin = None, debt = None, type_m = t\<rparr>"

definition years_of :: "'f FinancialMetrics list \<Rightarrow> int list" where
  "years_of ds = sort (remdups (map year ds))"

definition year_header :: "'f FinancialMetrics list \<Rightarrow> int \<Rightarrow> string" where
  "year_header ds y =
     str_int y @ (if list_ex (\<lambda>d. type_m d = forecast \<and> year d = y) ds then ''E'' else '''')"

definition metric_cell ::
  "('f \<Rightarrow> string) \<Rightarrow> ('f FinancialMetrics \<Rightarrow> 'f option) \<Rightarrow> 'f FinancialMetrics list \<Rightarrow> int \<Rightarrow> string" where
  "metric_cell fstr metric ds y =
     (case find (\<lambda>d. year d = y \<and> metric d \<noteq> None) ds of
        Some d \<Rightarrow> fstr (the (metric d))
      | None \<Rightarrow> ''-'')"

definition ft_FinancialData :: "('f \<Rightarrow> string) \<Rightarrow> 'f FinancialData \<Rightarrow> ft_table" where
  "ft_FinancialData fstr self =
     (let years = years_of (data self) in
      \<lparr> rows =
          [ Th ''Metric'' # map (\<lambda>y. Th (year_header (data self) y)) years,
            Td ''Revenue'' # map (\<lambda>y. Td (metric_cell fstr revenue (data self) y)) years,
            Td ''EBITDA'' # map (\<lambda>y. Td (metric_cell fstr ebitda (data self) y)) years,
            Td ''Margin'' # map (\<lambda>y. Td (metric_cell fstr margin (data self) y)) years,
            Td ''Debt'' # map (\<lambda>y. Td (metric_cell fstr debt (data self) y)) years ],
        caption = ''All values in '' @ currency self \<rparr>)"

section \<open>Errors\<close>

text \<open>
  The exceptions the modelled code can raise. A function that can raise returns a value of
  \<open>py_error + 'a\<close>, with \<open>Inl\<close> for the exception. \<open>APIError\<close> stands for any failure
  of a call to the extraction service.
\<close>

datatype py_error =
    FileNotFoundError | NotADirectoryError | IsADirectoryError | FileExistsError | OSError
  | KeyError | AttributeError | APIError | UnpicklingError

section \<open>The file system\<close>

text \<open>
  The program keeps all its state in files under \<open>data/\<close>, and builds every path by
  putting a string it was given into an f-string (\<open>f"data/temp/{filename}"\<close>,
  \<open>f"data/pkl/{company_id}.pkl"\<close>). The model keeps the paths as the strings the source
  builds and resolves them as the operating system does: a path is split at \<open>/\<close>, the
  components are walked from the working directory (from the root, for a path that begins
  with \<open>/\<close>), an empty component or \<open>.\<close> stays where it is and \<open>..\<close> goes to the parent,
  also out of the working directory and above it. Every directory passed through must
  exist, or the walk fails as the system call does. The empty path names nothing.

  A file system is the location of the working directory of the process, and an
  association list from locations (the names from the root \<open>/\<close> down) to nodes: a
  directory, or a regular file with its bytes. The order of the list is the order in which
  a directory listing enumerates the entries. The root is always a directory, and \<open>..\<close>
  at the root stays at the root. There are no symbolic links and no permissions.
\<close>

datatype node = Dir | File string

type_synonym location = "string list"

record filesystem =
  cwd :: location
  nodes :: "(location \<times> node) list"

definition node_at :: "filesystem \<Rightarrow> location \<Rightarrow> node option" where
  "node_at fs p = (if p = [] then Some Dir else map_of (nodes fs) p)"

fun split_path :: "string \<Rightarrow> string list" where
  "split_path [] = [[]]"
| "split_path (c # cs) =
     (if c = CHR ''/'' then [] # split_path cs
      else (case split_path cs of x # xs \<Rightarrow> (c # x) # xs | [] \<Rightarrow> [[c]]))"

fun walk :: "filesystem \<Rightarrow> location \<Rightarrow> string list \<Rightarrow> py_error + location" where
  "walk fs cur [] = Inr cur"
| "walk fs cur (c # cs) =
     (case node_at fs cur of
        None \<Rightarrow> Inl FileNotFoundError
      | Some (File b) \<Rightarrow> Inl NotADirectoryError
      | Some Dir \<Rightarrow>
          if c = '''' \<or> c = ''.'' then walk fs cur cs
          else if c = ''..'' then walk fs (butlast cur) cs
          else walk fs (cur @ [c]) cs)"

definition start :: "filesystem \<Rightarrow> string \<Rightarrow> location" where
  "start fs path = (if path \<noteq> [] \<and> hd path = CHR ''/'' then [] else cwd fs)"

definition resolve :: "filesystem \<Rightarrow> string \<Rightarrow> py_error + location" where
  "resolve fs path =
     (if path = [] then Inl FileNotFoundError else walk fs (start fs path) (split_path path))"

definition os_path_exists :: "filesystem \<Rightarrow> string \<Rightarrow> bool" where
  "os_path_exists fs path =
     (case resolve fs path of Inl e \<Rightarrow> False | Inr p \<Rightarrow> node_at fs p \<noteq> None)"

definition open_rb :: "filesystem \<Rightarrow> string \<Rightarrow> py_error + string" where
  "open_rb fs path =
     (case resolve fs path of
        Inl e \<Rightarrow> Inl e
      | Inr p \<Rightarrow>
          (case node_at fs p of
             None \<Rightarrow> Inl FileNotFoundError
           | Some Dir \<Rightarrow> Inl IsADirectoryError
           | Some (File b) \<Rightarrow> Inr b))"

definition open_wb :: "filesystem \<Rightarrow> string \<Rightarrow> string \<Rightarrow> py_error + filesystem" where
  "open_wb fs path b =
     (case resolve fs path of
        Inl e \<Rightarrow> Inl e
      | Inr p \<Rightarrow>
          (case node_at fs p of
             Some Dir \<Rightarrow> Inl IsADirectoryError
           | _ \<Rightarrow> Inr (fs\<lparr>nodes := AList.update p (File b) (nodes fs)\<rparr>)))"

text \<open>
  \<open>os.makedirs(path, exist_ok=True)\<close>, which the source calls on \<open>data/pkl\<close>,
  \<open>data/pdf\<close> and \<open>data/temp\<close> only: each missing directory of the path is created in
  the directory before it, which must be there; a regular file in the way raises.
\<close>

fun makedirs_from :: "filesystem \<Rightarrow> location \<Rightarrow> string list \<Rightarrow> py_error + filesystem" where
  "makedirs_from fs cur [] = Inr fs"
| "makedirs_from fs cur (c # cs) =
     (case node_at fs cur of
        None \<Rightarrow> Inl FileNotFoundError
      | Some (File b) \<Rightarrow> Inl NotADirectoryError
      | Some Dir \<Rightarrow>
          (case node_at fs (cur @ [c]) of
             None \<Rightarrow>
               makedirs_from (fs\<lparr>nodes := AList.update (cur @ [c]) Dir (nodes fs)\<rparr>) (cur @ [c]) cs
           | Some Dir \<Rightarrow> makedirs_from fs (cur @ [c]) cs
           | Some (File b) \<Rightarrow> Inl (if cs = [] then FileExistsError else NotADirectoryError)))"

definition os_makedirs :: "filesystem \<Rightarrow> string \<Rightarrow> py_error + filesystem" where
  "os_makedirs fs path = makedirs_from fs (start fs path) (split_path path)"

text \<open>
  \<open>os.rename(src, dst)\<close>: renaming a file or directory to itself does nothing; a regular
  file replaces a regular file at the destination and cannot replace a directory; a
  directory moves with everything below it, onto nothing or onto an empty directory, and
  not into itself. The working directory of the process moves with a directory that
  holds it.
\<close>

definition moved :: "location \<Rightarrow> location \<Rightarrow> location \<Rightarrow> location" where
  "moved s d q = (if prefix s q then d @ drop (length s) q else q)"

definition move_tree :: "filesystem \<Rightarrow> location \<Rightarrow> location \<Rightarrow> filesystem" where
  "move_tree fs s d =
     \<lparr> cwd = moved s d (cwd fs),
       nodes = map (\<lambda>(q, n). (moved s d q, n)) (AList.delete d (nodes fs)) \<rparr>"

definition os_rename :: "filesystem \<Rightarrow> string \<Rightarrow> string \<Rightarrow> py_error + filesystem" where
  "os_rename fs src dst =
     (case resolve fs src of
        Inl e \<Rightarrow> Inl e
      | Inr s \<Rightarrow>
     (case resolve fs dst of
        Inl e \<Rightarrow> Inl e
      | Inr d \<Rightarrow>
     (case node_at fs s of
        None \<Rightarrow> Inl FileNotFoundError
      | Some (File b) \<Rightarrow>
          if s = d then Inr fs
          else
            (case node_at fs d of
               Some Dir \<Rightarrow> Inl IsADirectoryError
             | _ \<Rightarrow> Inr (fs\<lparr>nodes := AList.update d (File b) (AList.delete s (nodes fs))\<rparr>))
      | Some Dir \<Rightarrow>
          if last (split_path src) = ''.'' \<or> last (split_path src) = ''..'' \<or> s = []
          then Inl OSError
          else if s = d then Inr fs
          else if prefix s d then Inl OSError
          else
            (case node_at fs d of
               Some (File b) \<Rightarrow> Inl NotADirectoryError
             | Some Dir \<Rightarrow>
                 if list_ex (\<lambda>(q, n). strict_prefix d q) (nodes fs) then Inl OSError
                 else Inr (move_tree fs s d)
             | None \<Rightarrow> Inr (move_tree fs s d)))))"

definition listdir :: "filesystem \<Rightarrow> location \<Rightarrow> string list" where
  "listdir fs dir =
     map (\<lambda>(q, n). last q) (filter (\<lambda>(q, n). q \<noteq> [] \<and> butlast q = dir) (nodes fs))"

section \<open>The clipboard export (main.py, lines 500 to 524)\<close>

text \<open>
  \<open>format_for_excel_clipboard\<close> goes through pandas. Each step of the source is a
  function on a small data frame: row labels, column labels, their two names, and the
  cells by row. A cell is an integer, a float, a string or a missing value (\<open>NA\<close>: pandas
  holds Python's \<open>None\<close> in a float column as \<open>NaN\<close> and in an object column as \<open>None\<close>,
  and \<open>fillna\<close> replaces both). A float that is itself \<open>NaN\<close> is outside the model.
  \<open>to_csv(sep)\<close> writes the header (the name of the row labels, empty when they have
  none, then the column labels), then one line per row, each ended by a line feed; no text
  it writes here needs quoting.
\<close>

datatype 'f cell = IntCell int | FloatCell 'f | StrCell string | NA

record 'f DataFrame =
  index_name :: "string option"
  index_labels :: "'f cell list"
  columns_name :: "string option"
  columns :: "'f cell list"
  frame_values :: "'f cell list list"

definition type_str :: "metrics_type \<Rightarrow> string" where
  "type_str t = (case t of actual \<Rightarrow> ''actual'' | forecast \<Rightarrow> ''forecast'')"

definition float_cell :: "'f option \<Rightarrow> 'f cell" where
  "float_cell v = (case v of Some x \<Rightarrow> FloatCell x | None \<Rightarrow> NA)"

definition metrics_dict :: "'f FinancialMetrics \<Rightarrow> (string \<times> 'f cell) list" where
  "metrics_dict m =
     [ (''year'', IntCell (year m)),
       (''revenue'', float_cell (revenue m)),
       (''ebitda'', float_cell (ebitda m)),
       (''margin'', float_cell (margin m)),
       (''debt'', (case debt m of Some x \<Rightarrow> FloatCell x | None \<Rightarrow> StrCell [])),
       (''type'', StrCell (type_str (type_m m))) ]"

definition pd_DataFrame :: "(string \<times> 'f cell) list list \<Rightarrow> 'f DataFrame" where
  "pd_DataFrame dicts =
     \<lparr> index_name = None,
       index_labels = map (\<lambda>i. IntCell (int i)) [0..<length dicts],
       columns_name = None,
       columns = (case dicts of [] \<Rightarrow> [] | d # _ \<Rightarrow> map (\<lambda>(k, v). StrCell k) d),
       frame_values = map (map snd) dicts \<rparr>"

fun position :: "'a \<Rightarrow> 'a list \<Rightarrow> nat option" where
  "position a [] = None"
| "position a (x # xs) =
     (if x = a then Some 0 else (case position a xs of None \<Rightarrow> None | Some i \<Rightarrow> Some (Suc i)))"

definition delete_at :: "nat \<Rightarrow> 'a list \<Rightarrow> 'a list" where
  "delete_at j xs = take j xs @ drop (Suc j) xs"

definition set_index :: "string \<Rightarrow> 'f DataFrame \<Rightarrow> py_error + 'f DataFrame" where
  "set_index key df =
     (case position (StrCell key) (columns df) of
        None \<Rightarrow> Inl KeyError
      | Some j \<Rightarrow>
          Inr \<lparr> index_name = Some key,
                index_labels = map (\<lambda>r. r ! j) (frame_values df),
                columns_name = columns_name df,
                columns = delete_at j (columns df),
                frame_values = map (delete_at j) (frame_values df) \<rparr>)"

definition transpose_frame :: "'f DataFrame \<Rightarrow> 'f DataFrame" where
  "transpose_frame df =
     \<lparr> index_name = columns_name df,
       index_labels = columns df,
       columns_name = index_name df,
       columns = index_labels df,
       frame_values = map (\<lambda>j. map (\<lambda>r. r ! j) (frame_values df)) [0..<length (columns df)] \<rparr>"

definition fillna :: "'f cell \<Rightarrow> 'f DataFrame \<Rightarrow> 'f DataFrame" where
  "fillna v df = df\<lparr>frame_values := map (map (\<lambda>c. if c = NA then v else c)) (frame_values df)\<rparr>"

definition cell_text :: "('f \<Rightarrow> string) \<Rightarrow> 'f cell \<Rightarrow> string" where
  "cell_text fstr c =
     (case c of IntCell i \<Rightarrow> str_int i | FloatCell x \<Rightarrow> fstr x | StrCell s \<Rightarrow> s | NA \<Rightarrow> [])"

fun join :: "string \<Rightarrow> string list \<Rightarrow> string" where
  "join sep [] = []"
| "join sep [x] = x"
| "join sep (x # y # ys) = x @ sep @ join sep (y # ys)"

definition csv_line :: "string \<Rightarrow> string list \<Rightarrow> string" where
  "csv_line sep texts = join sep texts @ [CHR 0x0A]"

definition to_csv :: "('f \<Rightarrow> string) \<Rightarrow> string \<Rightarrow> 'f DataFrame \<Rightarrow> string" where
  "to_csv fstr sep df =
     csv_line sep ((case index_name df of None \<Rightarrow> [] | Some n \<Rightarrow> n) # map (cell_text fstr) (columns df))
     @ concat (map (\<lambda>(l, r). csv_line sep (cell_text fstr l # map (cell_text fstr) r))
                 (zip (index_labels df) (frame_values df)))"

text \<open>
  The text of an optional float in the export: empty for \<open>None\<close>.
\<close>

definition exported :: "('f \<Rightarrow> string) \<Rightarrow> 'f option \<Rightarrow> string" where
  "exported fstr v = (case v of Some x \<Rightarrow> fstr x | None \<Rightarrow> [])"

definition format_for_excel_clipboard ::
  "('f \<Rightarrow> string) \<Rightarrow> 'f FinancialMetrics list \<Rightarrow> py_error + string" where
  "format_for_excel_clipboard fstr metrics_list =
     (let df = pd_DataFrame (map metrics_dict metrics_list) in
      case set_index ''year'' df of
        Inl e \<Rightarrow> Inl e
      | Inr df_indexed \<Rightarrow>
          (let df_transposed = transpose_frame df_indexed;
               df_transposed = fillna (StrCell []) df_transposed;
               excel_ready_string = to_csv fstr [CHR 0x09] df_transposed
           in Inr excel_ready_string))"

section \<open>The application state and its responses\<close>

text \<open>
  The state the handlers share: the files, the extraction threads that were started and
  have not run yet (by their \<open>company_id\<close>), and the clipboard that \<open>pyperclip\<close> writes.
  A handler takes the state and returns its response with the new state. The \<open>Div\<close>
  fragments the status and submission handlers return are records of their text and their
  \<open>hx_*\<close> attributes. \<open>status_shown\<close> reads the job status off a fragment, as the
  polling client does.
\<close>

record system =
  disk :: filesystem
  threads :: "string list"
  clipboard :: string

record ft_div =
  loading :: bool
  message :: string
  message_cls :: string
  div_id :: string
  hx_get :: "string option"
  hx_target :: "string option"
  hx_swap :: "string option"
  hx_trigger :: "string option"

datatype job_status = RUNNING | COMPLETE

definition status_shown :: "ft_div \<Rightarrow> job_status option" where
  "status_shown d =
     (if message d = ''Extraction complete'' then Some COMPLETE
      else if message d = ''Extracting data...'' then Some RUNNING
      else None)"

definition error_div :: "string \<Rightarrow> ft_div" where
  "error_div text =
     \<lparr> loading = False, message = text, message_cls = ''TextT.error'', div_id = ''file-status'',
       hx_get = None, hx_target = None, hx_swap = None, hx_trigger = None \<rparr>"

definition complete_div :: "string \<Rightarrow> ft_div" where
  "complete_div company_id =
     \<lparr> loading = False, message = ''Extraction complete'', message_cls = ''TextT.info'',
       div_id = ''file-status'', hx_get = Some (''/company/'' @ company_id),
       hx_target = Some ''body'', hx_swap = Some ''outerHTML'', hx_trigger = Some ''load'' \<rparr>"

definition running_div :: "string \<Rightarrow> ft_div" where
  "running_div company_id =
     \<lparr> loading = True, message = ''Extracting data...'', message_cls = ''TextT.info'',
       div_id = ''file-status'', hx_get = Some (''/extract-company-data/'' @ company_id),
       hx_target = Some ''#file-status'', hx_swap = Some ''innerHTML'',
       hx_trigger = Some ''every 5s'' \<rparr>"

section \<open>The extraction thread (main.py, lines 105 to 124)\<close>

text \<open>
  \<open>extract_company_data\<close> runs in a thread of its own (\<open>@threaded\<close>); what it returns or
  raises is dropped with the thread. What the extraction service answers is a parameter:
  the upload fails, the generation fails, or the response arrives with its \<open>parsed\<close>
  attribute, which the client library leaves \<open>None\<close> when the response does not validate
  against the \<open>CompanyBase\<close> schema. The upload reads the document first, so a missing
  document raises before any call. \<open>Company(id=company_id, **company_base.model_dump())\<close>
  is the record extension. \<open>pickle.dump\<close> and \<open>pickle.load\<close> are parameters
  \<open>pickle_dump\<close> and \<open>pickle_load\<close>.
\<close>

datatype 'f capability_reply = UploadFailed | GenerateFailed | Parsed "'f CompanyBase option"

definition extract_company_data ::
  "('f Company \<Rightarrow> string) \<Rightarrow> filesystem \<Rightarrow> 'f capability_reply \<Rightarrow> string
     \<Rightarrow> (py_error + string) \<times> filesystem" where
  "extract_company_data pickle_dump fs reply company_id =
     (let file_path = ''data/pdf/'' @ company_id @ ''.pdf'' in
      case open_rb fs file_path of
        Inl e \<Rightarrow> (Inl FileNotFoundError, fs)
      | Inr doc \<Rightarrow>
          (case reply of
             UploadFailed \<Rightarrow> (Inl APIError, fs)
           | GenerateFailed \<Rightarrow> (Inl APIError, fs)
           | Parsed None \<Rightarrow> (Inl AttributeError, fs)
           | Parsed (Some company_base) \<Rightarrow>
               (let company = CompanyBase.extend company_base (Company.fields company_id) in
                case os_makedirs fs ''data/pkl'' of
                  Inl e \<Rightarrow> (Inl e, fs)
                | Inr fs1 \<Rightarrow>
                    (let filename_pkl = ''data/pkl/'' @ company_id @ ''.pkl'' in
                     case open_wb fs1 filename_pkl (pickle_dump company) of
                       Inl e \<Rightarrow> (Inl e, fs1)
                     | Inr fs2 \<Rightarrow> (Inr company_id, fs2)))))"

definition thread_run ::
  "('f Company \<Rightarrow> string) \<Rightarrow> system \<Rightarrow> 'f capability_reply \<Rightarrow> string \<Rightarrow> system" where
  "thread_run pickle_dump sys reply company_id =
     sys\<lparr> disk := snd (extract_company_data pickle_dump (disk sys) reply company_id),
          threads := remove1 company_id (threads sys) \<rparr>"

section \<open>The status query (main.py, lines 421 to 443)\<close>

definition extract_company_data_status :: "filesystem \<Rightarrow> string \<Rightarrow> ft_div" where
  "extract_company_data_status fs company_id =
     (if os_path_exists fs (''data/pkl/'' @ company_id @ ''.pkl'')
      then complete_div company_id
      else running_div company_id)"

definition get_extract_company_data :: "system \<Rightarrow> string \<Rightarrow> ft_div \<times> system" where
  "get_extract_company_data sys company_id =
     (extract_company_data_status (disk sys) company_id, sys)"

section \<open>Upload and submission (main.py, lines 352 to 419)\<close>

text \<open>
  \<open>handle_file_select\<close> receives the uploaded file as its name and its bytes, and
  \<open>handle_extraction\<close> the \<open>filename\<close> query parameter (absent, or a string) and the
  text of the random \<open>uuid.uuid4()\<close>. Of the pair \<open>handle_file_select\<close> returns, the
  status fragment is the response here; the button it swaps in is left out.
\<close>

definition handle_file_select ::
  "system \<Rightarrow> (string \<times> string) option \<Rightarrow> (py_error + ft_div) \<times> system" where
  "handle_file_select sys file =
     (let no_file = \<lparr> loading = False, message = ''No file selected'', message_cls = ''TextT.muted'',
                       div_id = ''file-status'', hx_get = None, hx_target = None, hx_swap = None,
                       hx_trigger = None \<rparr> in
      case file of
        None \<Rightarrow> (Inr no_file, sys)
      | Some (filename, file_content) \<Rightarrow>
          if filename = [] then (Inr no_file, sys)
          else
            (let temp_path = ''data/temp/'' @ filename in
             case os_makedirs (disk sys) ''data/temp'' of
               Inl e \<Rightarrow> (Inl e, sys)
             | Inr fs1 \<Rightarrow>
                 (case open_wb fs1 temp_path file_content of
                    Inl e \<Rightarrow> (Inl e, sys\<lparr>disk := fs1\<rparr>)
                  | Inr fs2 \<Rightarrow>
                      (Inr \<lparr> loading = False, message = ''Selected file: '' @ filename,
                             message_cls = ''TextT.success'', div_id = ''file-status'',
                             hx_get = None, hx_target = None, hx_swap = None, hx_trigger = None \<rparr>,
                       sys\<lparr>disk := fs2\<rparr>))))"

definition handle_extraction ::
  "system \<Rightarrow> string option \<Rightarrow> string \<Rightarrow> (py_error + ft_div) \<times> system" where
  "handle_extraction sys filename uuid4 =
     (case filename of
        None \<Rightarrow> (Inr (error_div ''Error: No file specified''), sys)
      | Some fname \<Rightarrow>
          if fname = [] then (Inr (error_div ''Error: No file specified''), sys)
          else
            (let file_path = ''data/temp/'' @ fname in
             if \<not> os_path_exists (disk sys) file_path
             then (Inr (error_div ''Error: File not found''), sys)
             else
               (let company_id = filter (\<lambda>c. c \<noteq> CHR ''-'') uuid4;
                    filename_pdf = ''data/pdf/'' @ company_id @ ''.pdf'' in
                case os_makedirs (disk sys) ''data/pdf'' of
                  Inl e \<Rightarrow> (Inl e, sys)
                | Inr fs1 \<Rightarrow>
                    (case os_rename fs1 file_path filename_pdf of
                       Inl e \<Rightarrow> (Inl e, sys\<lparr>disk := fs1\<rparr>)
                     | Inr fs2 \<Rightarrow>
                         (Inr (extract_company_data_status fs2 company_id),
                          sys\<lparr>disk := fs2, threads := threads sys @ [company_id]\<rparr>)))))"

section \<open>Loading and listing (main.py, lines 228 to 257)\<close>

text \<open>
  \<open>Path("data/pkl").glob("*.pkl")\<close> yields the entries of the directory whose name ends
  in \<open>.pkl\<close>, in the order of the listing, and nothing when the directory is missing.
  \<open>stem\<close> is \<open>pathlib\<close>'s: the name up to its last dot, unless that dot starts or ends
  the name. The loop appends to \<open>company_data\<close>, and the first file that cannot be opened
  or loaded raises.
\<close>

fun rfind :: "char \<Rightarrow> string \<Rightarrow> int" where
  "rfind c [] = - 1"
| "rfind c (x # xs) =
     (let r = rfind c xs in if 0 \<le> r then r + 1 else if x = c then 0 else - 1)"

definition stem :: "string \<Rightarrow> string" where
  "stem fname =
     (let i = rfind CHR ''.'' fname in
      if 0 < i \<and> i < int (length fname) - 1 then take (nat i) fname else fname)"

definition glob_pkl :: "filesystem \<Rightarrow> string list" where
  "glob_pkl fs =
     (case resolve fs ''data/pkl'' of
        Inl e \<Rightarrow> []
      | Inr p \<Rightarrow>
          (case node_at fs p of
             Some Dir \<Rightarrow> filter (suffix ''.pkl'') (listdir fs p)
           | _ \<Rightarrow> []))"

fun company_list_loop ::
  "(string \<Rightarrow> py_error + 'f Company) \<Rightarrow> filesystem \<Rightarrow> (string \<times> string) list \<Rightarrow> string list
     \<Rightarrow> py_error + (string \<times> string) list" where
  "company_list_loop pickle_load fs company_data [] = Inr company_data"
| "company_list_loop pickle_load fs company_data (pkl_file # rest) =
     (case open_rb fs (''data/pkl/'' @ pkl_file) of
        Inl e \<Rightarrow> Inl e
      | Inr b \<Rightarrow>
          (case pickle_load b of
             Inl e \<Rightarrow> Inl e
           | Inr company \<Rightarrow>
               company_list_loop pickle_load fs
                 (company_data @ [(value (name company), ''/company/'' @ stem pkl_file)]) rest))"

definition get_company_list ::
  "(string \<Rightarrow> py_error + 'f Company) \<Rightarrow> filesystem \<Rightarrow> py_error + (string \<times> string) list" where
  "get_company_list pickle_load fs = company_list_loop pickle_load fs [] (glob_pkl fs)"

definition company ::
  "(string \<Rightarrow> py_error + 'f Company) \<Rightarrow> filesystem \<Rightarrow> string \<Rightarrow> py_error + 'f Company" where
  "company pickle_load fs company_id =
     (case open_rb fs (''data/pkl/'' @ company_id @ ''.pkl'') of
        Inl e \<Rightarrow> Inl e
      | Inr b \<Rightarrow> pickle_load b)"

section \<open>The copy route (main.py, lines 445 to 454)\<close>

text \<open>
  \<open>getattr(company(company_id), field_name)\<close>, then \<open>hasattr(field, 'financial_data')\<close>:
  only \<open>financials\<close> has that attribute, and the export is given its points alone. The
  seven text fields have a \<open>value\<close>; every other name ends in an \<open>AttributeError\<close>.
\<close>

definition copy_value :: "('f \<Rightarrow> string) \<Rightarrow> 'f Company \<Rightarrow> string \<Rightarrow> py_error + string" where
  "copy_value fstr c field_name =
     (if field_name = ''financials''
      then format_for_excel_clipboard fstr (data (financial_data (financials c)))
      else if field_name = ''name'' then Inr (value (name c))
      else if field_name = ''description'' then Inr (value (description c))
      else if field_name = ''strategy'' then Inr (value (strategy c))
      else if field_name = ''business_model'' then Inr (value (business_model c))
      else if field_name = ''market'' then Inr (value (market c))
      else if field_name = ''clients'' then Inr (value (clients c))
      else if field_name = ''products'' then Inr (value (products c))
      else Inl AttributeError)"

definition get_copy ::
  "(string \<Rightarrow> py_error + 'f Company) \<Rightarrow> ('f \<Rightarrow> string) \<Rightarrow> system \<Rightarrow> string \<Rightarrow> string
     \<Rightarrow> (py_error + string) \<times> system" where
  "get_copy pickle_load fstr sys company_id field_name =
     (case company pickle_load (disk sys) company_id of
        Inl e \<Rightarrow> (Inl e, sys)
      | Inr c \<Rightarrow>
          (case copy_value fstr c field_name of
             Inl e \<Rightarrow> (Inl e, sys)
           | Inr v \<Rightarrow> (Inr ''check'', sys\<lparr>clipboard := v\<rparr>)))"

section \<open>A worked run\<close>

text \<open>
  One company record and one run of the application, for the closed examples below. The
  process runs in the directory \<open>/app\<close>, which is empty at first (\<open>fresh\<close>): a report is
  uploaded, submitted, extracted, and then a second submission names the stored snapshot
  through \<open>..\<close>. \<open>example_dump\<close> and \<open>example_load\<close> stand for pickle on the one record
  of the run.
\<close>

definition fact :: "string \<Rightarrow> ExtractedValue" where
  "fact text = \<lparr>pages = [0], quality = high, value = text\<rparr>"

definition example_base :: "real CompanyBase" where
  "example_base =
     \<lparr> name = fact ''Acme'', description = fact ''Makes anvils'', strategy = fact ''Grow'',
       business_model = fact ''Sales'', market = fact ''Hardware'', clients = fact ''Coyotes'',
       products = fact ''Anvils'',
       top_management = \<lparr>employees = [], management_pages = []\<rparr>,
       financials = \<lparr>financial_data =
         \<lparr>pages = [7], quality = medium, data = [point 2022 (Some 50) actual],
          currency = ''USD m''\<rparr>\<rparr> \<rparr>"

definition example_uuid :: string where
  "example_uuid = ''0f8fad5b-d9cb-469f-a165-70867728950e''"

definition example_id :: string where
  "example_id = ''0f8fad5bd9cb469fa16570867728950e''"

definition example_company :: "real Company" where
  "example_company = CompanyBase.extend example_base (Company.fields example_id)"

definition example_dump :: "real Company \<Rightarrow> string" where
  "example_dump c = ''pickle of '' @ id_field c"

definition example_load :: "string \<Rightarrow> py_error + real Company" where
  "example_load b =
     (if b = ''pickle of '' @ example_id then Inr example_company else Inl UnpicklingError)"

definition fresh :: filesystem where
  "fresh = \<lparr> cwd = [''app''], nodes = [([''app''], Dir)] \<rparr>"

definition uploaded :: system where
  "uploaded =
     \<lparr> disk = \<lparr> cwd = [''app''], nodes =
               [([''app''], Dir), ([''app'', ''data''], Dir), ([''app'', ''data'', ''temp''], Dir),
               ([''app'', ''data'', ''temp'', ''report.pdf''], File ''%PDF-1.7'')] \<rparr>,
       threads = [], clipboard = [] \<rparr>"

definition submitted :: system where
  "submitted = snd (handle_extraction uploaded (Some ''report.pdf'') example_uuid)"

definition extracted :: system where
  "extracted = thread_run example_dump submitted (Parsed (Some example_base)) example_id"

definition resubmitted :: system where
  "resubmitted =
     snd (handle_extraction extracted (Some (''../pkl/'' @ example_id @ ''.pkl''))
            ''7c9e6679-7425-40de-944b-e07fc1f90ae7'')"


section \<open>Properties of the display table\<close>

lemma str_int_examples:
  "str_int 2022 = ''2022''" "str_int 2023 = ''2023''" "str_int 2024 = ''2024''"
  by (simp_all add: str_int_def digits.simps digit_char_def)

lemma str_float_whole_examples:
  "str_float_whole 50 = ''50.0''" "str_float_whole 100 = ''100.0''"
  "str_float_whole 110 = ''110.0''" "str_float_whole 120 = ''120.0''"
  by (simp_all add: str_float_whole_def str_int_def digits.simps digit_char_def)

lemma metric_cell_first_non_null:
  "metric_cell fstr metric ds y = displayed fstr (first_non_null metric y ds)"
  by (induction ds) (auto simp: metric_cell_def displayed_def split: option.splits)

lemma years_of_sorted_set: "years_of ds = sorted_list_of_set (year ` set ds)"
  by (simp add: years_of_def sorted_list_of_set_sort_remdups [symmetric])

lemma year_header_forecast:
  "(year_header ds y = str_int y @ ''E'') = (\<exists>d\<in>set ds. year d = y \<and> type_m d = forecast)"
  by (auto simp: year_header_def list_ex_iff)

lemma year_header_actual:
  "(year_header ds y = str_int y) = (\<not> (\<exists>d\<in>set ds. year d = y \<and> type_m d = forecast))"
  by (auto simp: year_header_def list_ex_iff)

lemma year_header_set: "set ds = set ds' \<Longrightarrow> year_header ds y = year_header ds' y"
  by (simp add: year_header_def list_ex_iff)

text \<open>
  C4. In the display table, the cell of each metric (revenue, ebitda, margin, debt) for each
  column year is the text of the first non-null value of that metric among the stored points
  of that year, scanned in stored order (and \<open>-\<close> when there is none). With the points
  (2023, revenue \<open>v1\<close>, actual) then (2023, revenue \<open>v2\<close>, forecast), the revenue cell of
  2023 shows \<open>v1\<close>.
\<close>

theorem first_match_display:
  "tl (rows (ft_FinancialData fstr self)) =
     [ Td ''Revenue'' # map (\<lambda>y. Td (displayed fstr (first_non_null revenue y (data self)))) (years_of (data self)),
       Td ''EBITDA'' # map (\<lambda>y. Td (displayed fstr (first_non_null ebitda y (data self)))) (years_of (data self)),
       Td ''Margin'' # map (\<lambda>y. Td (displayed fstr (first_non_null margin y (data self)))) (years_of (data self)),
       Td ''Debt'' # map (\<lambda>y. Td (displayed fstr (first_non_null debt y (data self)))) (years_of (data self)) ]
   \<and> rows (ft_FinancialData fstr
         \<lparr>pages = ps, quality = q,
          data = [point 2023 (Some v1) actual, point 2023 (Some v2) forecast], currency = cur\<rparr>) ! 1
       = [Td ''Revenue'', Td (fstr v1)]"
  by (simp add: ft_FinancialData_def Let_def metric_cell_first_non_null years_of_def
      point_def displayed_def)

theorem first_match_display_witness:
  "rows (ft_FinancialData str_float_whole
         \<lparr>pages = [3], quality = high,
          data = [point 2023 (Some 100) actual, point 2023 (Some 110) forecast],
          currency = ''USD m''\<rparr>) ! 1
     = [Td ''Revenue'', Td ''100.0'']"
  using first_match_display [of str_float_whole _ "[3]" high 100 110 "''USD m''"]
  by (simp add: str_float_whole_examples)

text \<open>
  C5. The column years of the display table are the years of the stored points, each once,
  in ascending order; the header of a year carries the forecast mark \<open>E\<close> exactly when some
  stored point of that year has type forecast; and the header row depends only on the set
  of stored points, not on their order.
\<close>

theorem year_header_rule:
  "hd (rows (ft_FinancialData fstr self)) =
       Th ''Metric'' # map (\<lambda>y. Th (year_header (data self) y)) (years_of (data self))
   \<and> years_of (data self) = sorted_list_of_set (year ` set (data self))
   \<and> (\<forall>y. (year_header (data self) y = str_int y @ ''E'')
            = (\<exists>d\<in>set (data self). year d = y \<and> type_m d = forecast))
   \<and> (\<forall>y. (year_header (data self) y = str_int y)
            = (\<not> (\<exists>d\<in>set (data self). year d = y \<and> type_m d = forecast)))
   \<and> (set (data other) = set (data self) \<longrightarrow>
        hd (rows (ft_FinancialData fstr other)) = hd (rows (ft_FinancialData fstr self)))"
proof -
  have "set (data other) = set (data self) \<Longrightarrow>
        hd (rows (ft_FinancialData fstr other)) = hd (rows (ft_FinancialData fstr self))"
    using year_header_set [of "data other" "data self"]
    by (simp add: ft_FinancialData_def Let_def years_of_sorted_set)
  then show ?thesis
    using year_header_forecast [of "data self"] year_header_actual [of "data self"]
    by (simp add: ft_FinancialData_def Let_def years_of_sorted_set)
qed

theorem year_header_rule_witness:
  "hd (rows (ft_FinancialData str_float_whole
         \<lparr>pages = [], quality = low,
          data = [point 2023 (Some 100) actual, point 2024 (Some 120) forecast],
          currency = ''EUR''\<rparr>))
     = [Th ''Metric'', Th ''2023'', Th ''2024E'']
   \<and> hd (rows (ft_FinancialData str_float_whole
         \<lparr>pages = [], quality = low,
          data = [point 2024 (Some 120) forecast, point 2023 (Some 100) actual],
          currency = ''EUR''\<rparr>))
     = [Th ''Metric'', Th ''2023'', Th ''2024E'']"
  using year_header_rule [of str_float_whole
      "\<lparr>pages = [], quality = low,
        data = [point 2023 (Some 100) actual, point 2024 (Some 120) forecast],
        currency = ''EUR''\<rparr>"
      "\<lparr>pages = [], quality = low,
        data = [point 2024 (Some 120) forecast, point 2023 (Some 100) actual],
        currency = ''EUR''\<rparr>"]
  by (simp add: point_def years_of_def year_header_def str_int_examples insert_commute)

section \<open>Properties of the file system\<close>

lemmas fs_eval =
  start_def resolve_def os_path_exists_def open_rb_def open_wb_def os_makedirs_def os_rename_def
  node_at_def extract_company_data_status_def

lemma node_at_root: "node_at fs [] = Some Dir"
  by (simp add: node_at_def)

lemma node_at_update:
  "p \<noteq> [] \<Longrightarrow>
     node_at (fs\<lparr>nodes := AList.update p n (nodes fs)\<rparr>) q
       = (if q = p then Some n else node_at fs q)"
  by (simp add: node_at_def update_conv')

text \<open>
  Writing a regular file where no directory stood changes no directory, so the path that
  led there still leads there.
\<close>

lemma walk_update_file:
  "walk fs cur cs = Inr p \<Longrightarrow> node_at fs p \<noteq> Some Dir \<Longrightarrow>
     walk (fs\<lparr>nodes := AList.update p (File b) (nodes fs)\<rparr>) cur cs = Inr p"
proof (induction cs arbitrary: cur)
  case Nil
  then show ?case by simp
next
  case (Cons c cs)
  from Cons.prems(2) have p: "p \<noteq> []"
    using node_at_root by metis
  from Cons.prems(1) have d: "node_at fs cur = Some Dir"
    by (auto split: option.splits node.splits)
  with Cons.prems(2) have "cur \<noteq> p" by auto
  with p d have d':
    "node_at (fs\<lparr>nodes := AList.update p (File b) (nodes fs)\<rparr>) cur = Some Dir"
    by (simp add: node_at_update)
  show ?case
    using Cons.prems Cons.IH d d' by (auto split: if_splits)
qed

lemma open_wb_written:
  assumes "open_wb fs path b = Inr fs'"
  shows "\<exists>p. resolve fs' path = Inr p \<and> node_at fs' p = Some (File b)"
proof -
  from assms obtain p where r: "resolve fs path = Inr p"
    and nd: "node_at fs p \<noteq> Some Dir"
    and fs': "fs' = fs\<lparr>nodes := AList.update p (File b) (nodes fs)\<rparr>"
    by (auto simp: open_wb_def split: sum.splits option.splits node.splits)
  from nd have p: "p \<noteq> []" using node_at_root by metis
  from r have path: "path \<noteq> []" and w: "walk fs (start fs path) (split_path path) = Inr p"
    by (auto simp: resolve_def split: if_splits)
  from walk_update_file [OF w nd, of b] path have "resolve fs' path = Inr p"
    by (auto simp: resolve_def fs' start_def split: if_splits)
  moreover from p have "node_at fs' p = Some (File b)"
    by (simp add: fs' node_at_update)
  ultimately show ?thesis by blast
qed

lemma open_wb_then_rb: "open_wb fs path b = Inr fs' \<Longrightarrow> open_rb fs' path = Inr b"
  using open_wb_written [of fs path b fs'] by (auto simp: open_rb_def)

lemma open_wb_exists: "open_wb fs path b = Inr fs' \<Longrightarrow> os_path_exists fs' path"
  using open_wb_written [of fs path b fs'] by (auto simp: os_path_exists_def)

section \<open>Properties of the extraction thread\<close>

lemma extend_truncate:
  "CompanyBase.extend (CompanyBase.truncate c) (Company.fields (id_field c)) = (c :: 'f Company)"
  by (cases c) (simp add: CompanyBase.extend_def CompanyBase.truncate_def Company.fields_def)

lemma extract_parsed:
  "extract_company_data pickle_dump fs (Parsed (Some base)) company_id =
     (case open_rb fs (''data/pdf/'' @ company_id @ ''.pdf'') of
        Inl e \<Rightarrow> (Inl FileNotFoundError, fs)
      | Inr doc \<Rightarrow>
          (case os_makedirs fs ''data/pkl'' of
             Inl e \<Rightarrow> (Inl e, fs)
           | Inr fs1 \<Rightarrow>
               (case open_wb fs1 (''data/pkl/'' @ company_id @ ''.pkl'')
                       (pickle_dump (CompanyBase.extend base (Company.fields company_id))) of
                  Inl e \<Rightarrow> (Inl e, fs1)
                | Inr fs2 \<Rightarrow> (Inr company_id, fs2))))"
  by (simp add: extract_company_data_def Let_def split: sum.splits)

lemma extract_parsed_success:
  assumes "extract_company_data pickle_dump fs (Parsed (Some base)) company_id = (Inr r, fs')"
  shows "r = company_id \<and> (\<exists>fs1. os_makedirs fs ''data/pkl'' = Inr fs1 \<and>
           open_wb fs1 (''data/pkl/'' @ company_id @ ''.pkl'')
             (pickle_dump (CompanyBase.extend base (Company.fields company_id))) = Inr fs')"
proof (cases "open_rb fs (''data/pdf/'' @ company_id @ ''.pdf'')")
  case (Inl e)
  with assms show ?thesis unfolding extract_parsed by simp
next
  case doc: (Inr doc)
  show ?thesis
  proof (cases "os_makedirs fs ''data/pkl''")
    case (Inl e)
    with assms doc show ?thesis unfolding extract_parsed by simp
  next
    case mk: (Inr fs1)
    show ?thesis
    proof (cases "open_wb fs1 (''data/pkl/'' @ company_id @ ''.pkl'')
             (pickle_dump (CompanyBase.extend base (Company.fields company_id)))")
      case (Inl e)
      with assms doc mk show ?thesis unfolding extract_parsed by simp
    next
      case (Inr fs2)
      with assms doc mk show ?thesis unfolding extract_parsed by simp
    qed
  qed
qed

lemma extract_success_exists:
  assumes "extract_company_data pickle_dump fs (Parsed (Some base)) company_id = (Inr r, fs')"
  shows "os_path_exists fs' (''data/pkl/'' @ company_id @ ''.pkl'')"
  using extract_parsed_success [OF assms] open_wb_exists by blast

lemma extract_failure_keeps_disk:
  "\<forall>base. reply \<noteq> Parsed (Some base) \<Longrightarrow>
     snd (extract_company_data pickle_dump fs reply company_id) = fs"
  by (cases reply)
     (auto simp: extract_company_data_def Let_def split: sum.splits option.splits)

section \<open>The worked run, step by step\<close>

lemma example_id_filter: "filter (\<lambda>c. c \<noteq> CHR ''-'') example_uuid = example_id"
  by (simp add: example_uuid_def example_id_def)

lemma id_field_example: "id_field example_company = example_id"
  by (simp add: example_company_def CompanyBase.extend_def Company.defs)

lemma truncate_example: "CompanyBase.truncate example_company = example_base"
  by (simp add: example_company_def example_base_def CompanyBase.extend_def
      CompanyBase.truncate_def Company.defs)

lemma example_data:
  "data (financial_data (financials example_company)) = [point 2022 (Some 50) actual]"
  "currency (financial_data (financials example_company)) = ''USD m''"
  by (simp_all add: example_company_def example_base_def CompanyBase.extend_def
      CompanyBase.defs Company.defs)

lemma uploaded_eval:
  "snd (handle_file_select \<lparr>disk = fresh, threads = [], clipboard = []\<rparr>
          (Some (''report.pdf'', ''%PDF-1.7''))) = uploaded"
  by (simp add: handle_file_select_def uploaded_def fresh_def Let_def fs_eval)

lemma submitted_disk:
  "submitted =
     \<lparr> disk = \<lparr> cwd = [''app''], nodes =
               [([''app''], Dir), ([''app'', ''data''], Dir), ([''app'', ''data'', ''temp''], Dir),
                ([''app'', ''data'', ''pdf''], Dir),
               ([''app'', ''data'', ''pdf'', example_id @ ''.pdf''], File ''%PDF-1.7'')] \<rparr>,
       threads = [example_id], clipboard = [] \<rparr>"
  by (simp add: submitted_def handle_extraction_def uploaded_def example_id_filter Let_def
      fs_eval example_id_def)

lemma extracted_disk:
  "extracted =
     \<lparr> disk = \<lparr> cwd = [''app''], nodes =
               [([''app''], Dir), ([''app'', ''data''], Dir), ([''app'', ''data'', ''temp''], Dir),
                ([''app'', ''data'', ''pdf''], Dir),
               ([''app'', ''data'', ''pdf'', example_id @ ''.pdf''], File ''%PDF-1.7''),
               ([''app'', ''data'', ''pkl''], Dir),
               ([''app'', ''data'', ''pkl'', example_id @ ''.pkl''],
                File (''pickle of '' @ example_id))] \<rparr>,
       threads = [], clipboard = [] \<rparr>"
  unfolding extracted_def thread_run_def submitted_disk extract_parsed
  by (simp add: fs_eval example_dump_def example_id_def CompanyBase.extend_def Company.defs)

lemma extraction_eval:
  "extract_company_data example_dump (disk submitted) (Parsed (Some example_base)) example_id
     = (Inr example_id, disk extracted)"
  unfolding extracted_disk submitted_disk extract_parsed
  by (simp add: fs_eval example_dump_def example_id_def CompanyBase.extend_def Company.defs)

lemma resubmitted_disk:
  "resubmitted =
     \<lparr> disk = \<lparr> cwd = [''app''], nodes =
               [([''app''], Dir), ([''app'', ''data''], Dir), ([''app'', ''data'', ''temp''], Dir),
                ([''app'', ''data'', ''pdf''], Dir),
               ([''app'', ''data'', ''pdf'', example_id @ ''.pdf''], File ''%PDF-1.7''),
               ([''app'', ''data'', ''pkl''], Dir),
               ([''app'', ''data'', ''pdf'', ''7c9e6679742540de944be07fc1f90ae7.pdf''],
                File (''pickle of '' @ example_id))] \<rparr>,
       threads = [''7c9e6679742540de944be07fc1f90ae7''], clipboard = [] \<rparr>"
  unfolding resubmitted_def extracted_disk
  by (simp add: handle_extraction_def Let_def fs_eval example_id_def)

section \<open>The clipboard export\<close>

lemma cell_text_float_cell:
  "cell_text fstr (if float_cell v = NA then StrCell [] else float_cell v) = exported fstr v"
  by (cases v) (simp_all add: float_cell_def cell_text_def exported_def)

lemma cell_text_debt:
  "cell_text fstr
     (if (case v of Some x \<Rightarrow> FloatCell x | None \<Rightarrow> StrCell []) = NA then StrCell []
      else (case v of Some x \<Rightarrow> FloatCell x | None \<Rightarrow> StrCell []))
   = exported fstr v"
  by (cases v) (simp_all add: cell_text_def exported_def)

lemma format_empty: "format_for_excel_clipboard fstr [] = Inl KeyError"
  by (simp add: format_for_excel_clipboard_def pd_DataFrame_def set_index_def)

lemma format_nonempty:
  assumes "metrics_list \<noteq> []"
  shows "format_for_excel_clipboard fstr metrics_list =
     Inr (csv_line [CHR 0x09] ([] # map (\<lambda>m. str_int (year m)) metrics_list)
        @ csv_line [CHR 0x09] (''revenue'' # map (\<lambda>m. exported fstr (revenue m)) metrics_list)
        @ csv_line [CHR 0x09] (''ebitda'' # map (\<lambda>m. exported fstr (ebitda m)) metrics_list)
        @ csv_line [CHR 0x09] (''margin'' # map (\<lambda>m. exported fstr (margin m)) metrics_list)
        @ csv_line [CHR 0x09] (''debt'' # map (\<lambda>m. exported fstr (debt m)) metrics_list)
        @ csv_line [CHR 0x09] (''type'' # map (\<lambda>m. type_str (type_m m)) metrics_list))"
proof -
  from assms obtain m ms where ms: "metrics_list = m # ms" by (cases metrics_list) auto
  have cols: "columns (pd_DataFrame (map metrics_dict metrics_list)) =
      [StrCell ''year'', StrCell ''revenue'', StrCell ''ebitda'', StrCell ''margin'',
       StrCell ''debt'', StrCell ''type'']"
    by (simp add: ms pd_DataFrame_def metrics_dict_def)
  have vals: "frame_values (pd_DataFrame (map metrics_dict metrics_list)) =
      map (\<lambda>m. [IntCell (year m), float_cell (revenue m), float_cell (ebitda m),
                 float_cell (margin m),
                 (case debt m of Some x \<Rightarrow> FloatCell x | None \<Rightarrow> StrCell []),
                 StrCell (type_str (type_m m))]) metrics_list"
    by (simp add: pd_DataFrame_def metrics_dict_def)
  have idx: "set_index ''year'' (pd_DataFrame (map metrics_dict metrics_list)) =
      Inr \<lparr> index_name = Some ''year'',
            index_labels = map (\<lambda>m. IntCell (year m)) metrics_list,
            columns_name = None,
            columns = [StrCell ''revenue'', StrCell ''ebitda'', StrCell ''margin'',
                       StrCell ''debt'', StrCell ''type''],
            frame_values =
              map (\<lambda>m. [float_cell (revenue m), float_cell (ebitda m), float_cell (margin m),
                         (case debt m of Some x \<Rightarrow> FloatCell x | None \<Rightarrow> StrCell []),
                         StrCell (type_str (type_m m))]) metrics_list \<rparr>"
    by (simp add: set_index_def cols vals delete_at_def o_def)
       (simp add: pd_DataFrame_def)
  show ?thesis
    unfolding format_for_excel_clipboard_def Let_def idx
    by (simp add: transpose_frame_def fillna_def to_csv_def o_def
        cell_text_float_cell cell_text_debt)
       (simp add: cell_text_def)
qed

text \<open>
  C1, as the code has it. For a stored FinancialData with at least one point, the text the
  copy route puts on the clipboard is a tab-separated table: a header line with an empty
  first cell and then the year of each stored point, in stored order and one column per
  point; then the rows revenue, ebitda, margin, debt and type, one cell per point. A metric
  value that is absent is the empty string. The text is computed from the points alone: it
  is the same whatever the currency string is, and carries no currency annotation.
\<close>

theorem clipboard_export_layout:
  "(data (financial_data (financials c)) \<noteq> [] \<longrightarrow>
      copy_value fstr c ''financials'' =
        Inr (csv_line [CHR 0x09]
               ([] # map (\<lambda>m. str_int (year m)) (data (financial_data (financials c))))
           @ csv_line [CHR 0x09]
               (''revenue'' # map (\<lambda>m. exported fstr (revenue m)) (data (financial_data (financials c))))
           @ csv_line [CHR 0x09]
               (''ebitda'' # map (\<lambda>m. exported fstr (ebitda m)) (data (financial_data (financials c))))
           @ csv_line [CHR 0x09]
               (''margin'' # map (\<lambda>m. exported fstr (margin m)) (data (financial_data (financials c))))
           @ csv_line [CHR 0x09]
               (''debt'' # map (\<lambda>m. exported fstr (debt m)) (data (financial_data (financials c))))
           @ csv_line [CHR 0x09]
               (''type'' # map (\<lambda>m. type_str (type_m m)) (data (financial_data (financials c))))))
   \<and> exported fstr None = []
   \<and> copy_value fstr
        (c\<lparr>financials := \<lparr>financial_data = (financial_data (financials c))\<lparr>currency := cur\<rparr>\<rparr>\<rparr>)
        ''financials''
      = copy_value fstr c ''financials''"
  using format_nonempty [of "data (financial_data (financials c))" fstr]
  by (simp add: copy_value_def exported_def)

theorem clipboard_export_layout_witness:
  "copy_value str_float_whole example_company ''financials'' =
     Inr ([CHR 0x09] @ ''2022'' @ [CHR 0x0A]
        @ ''revenue'' @ [CHR 0x09] @ ''50.0'' @ [CHR 0x0A]
        @ ''ebitda'' @ [CHR 0x09] @ [CHR 0x0A]
        @ ''margin'' @ [CHR 0x09] @ [CHR 0x0A]
        @ ''debt'' @ [CHR 0x09] @ [CHR 0x0A]
        @ ''type'' @ [CHR 0x09] @ ''actual'' @ [CHR 0x0A])"
  using clipboard_export_layout [of example_company str_float_whole]
  by (simp add: example_data point_def csv_line_def exported_def type_str_def
      str_int_examples str_float_whole_examples)

text \<open>
  C1, as the claim states it, fails on its own example: for the currency \<open>USD m\<close> and the
  single point (2022, revenue 50, no ebitda, actual), the export is the text below, and
  \<open>USD m\<close> occurs nowhere in it.
\<close>

theorem clipboard_export_has_no_currency:
  "currency (financial_data (financials example_company)) = ''USD m''
   \<and> copy_value str_float_whole example_company ''financials'' =
     Inr ([CHR 0x09] @ ''2022'' @ [CHR 0x0A]
        @ ''revenue'' @ [CHR 0x09] @ ''50.0'' @ [CHR 0x0A]
        @ ''ebitda'' @ [CHR 0x09] @ [CHR 0x0A]
        @ ''margin'' @ [CHR 0x09] @ [CHR 0x0A]
        @ ''debt'' @ [CHR 0x09] @ [CHR 0x0A]
        @ ''type'' @ [CHR 0x09] @ ''actual'' @ [CHR 0x0A])
   \<and> \<not> sublist ''USD m''
       ([CHR 0x09] @ ''2022'' @ [CHR 0x0A]
        @ ''revenue'' @ [CHR 0x09] @ ''50.0'' @ [CHR 0x0A]
        @ ''ebitda'' @ [CHR 0x09] @ [CHR 0x0A]
        @ ''margin'' @ [CHR 0x09] @ [CHR 0x0A]
        @ ''debt'' @ [CHR 0x09] @ [CHR 0x0A]
        @ ''type'' @ [CHR 0x09] @ ''actual'' @ [CHR 0x0A])"
proof -
  have "CHR ''U'' \<notin> set ([CHR 0x09] @ ''2022'' @ [CHR 0x0A]
        @ ''revenue'' @ [CHR 0x09] @ ''50.0'' @ [CHR 0x0A]
        @ ''ebitda'' @ [CHR 0x09] @ [CHR 0x0A]
        @ ''margin'' @ [CHR 0x09] @ [CHR 0x0A]
        @ ''debt'' @ [CHR 0x09] @ [CHR 0x0A]
        @ ''type'' @ [CHR 0x09] @ ''actual'' @ [CHR 0x0A])"
    by simp
  then have "\<not> sublist ''USD m'' ([CHR 0x09] @ ''2022'' @ [CHR 0x0A]
        @ ''revenue'' @ [CHR 0x09] @ ''50.0'' @ [CHR 0x0A]
        @ ''ebitda'' @ [CHR 0x09] @ [CHR 0x0A]
        @ ''margin'' @ [CHR 0x09] @ [CHR 0x0A]
        @ ''debt'' @ [CHR 0x09] @ [CHR 0x0A]
        @ ''type'' @ [CHR 0x09] @ ''actual'' @ [CHR 0x0A])"
    using set_mono_sublist by fastforce
  moreover have "copy_value str_float_whole example_company ''financials'' =
     Inr ([CHR 0x09] @ ''2022'' @ [CHR 0x0A]
        @ ''revenue'' @ [CHR 0x09] @ ''50.0'' @ [CHR 0x0A]
        @ ''ebitda'' @ [CHR 0x09] @ [CHR 0x0A]
        @ ''margin'' @ [CHR 0x09] @ [CHR 0x0A]
        @ ''debt'' @ [CHR 0x09] @ [CHR 0x0A]
        @ ''type'' @ [CHR 0x09] @ ''actual'' @ [CHR 0x0A])"
    using format_nonempty [of "[point 2022 (Some 50) actual]" str_float_whole]
    by (simp add: copy_value_def example_data point_def csv_line_def exported_def type_str_def
      str_int_examples str_float_whole_examples)
  ultimately show ?thesis by (simp add: example_data)
qed

section \<open>The status query\<close>

text \<open>
  C2. The status query shows COMPLETE exactly when \<open>data/pkl/<company_id>.pkl\<close> exists
  and RUNNING otherwise. It returns the state it was given, and what it shows does not
  depend on the threads or the clipboard. After an extraction that returned, the snapshot
  of its identifier exists and the query shows COMPLETE.
\<close>

theorem status_reflects_snapshot:
  "(status_shown (extract_company_data_status fs company_id) = Some COMPLETE)
      = os_path_exists fs (''data/pkl/'' @ company_id @ ''.pkl'')
   \<and> (status_shown (extract_company_data_status fs company_id) = Some RUNNING)
      = (\<not> os_path_exists fs (''data/pkl/'' @ company_id @ ''.pkl''))
   \<and> get_extract_company_data sys company_id
      = (extract_company_data_status (disk sys) company_id, sys)
   \<and> fst (get_extract_company_data (sys\<lparr>threads := ts, clipboard := cb\<rparr>) company_id)
      = fst (get_extract_company_data sys company_id)
   \<and> (extract_company_data pickle_dump fs (Parsed (Some base)) company_id = (Inr r, fs') \<longrightarrow>
        status_shown (extract_company_data_status fs' company_id) = Some COMPLETE)"
proof -
  have shown: "\<And>fs. status_shown (extract_company_data_status fs company_id) =
      Some (if os_path_exists fs (''data/pkl/'' @ company_id @ ''.pkl'') then COMPLETE else RUNNING)"
    by (simp add: status_shown_def extract_company_data_status_def complete_div_def
        running_div_def)
  have "extract_company_data pickle_dump fs (Parsed (Some base)) company_id = (Inr r, fs') \<Longrightarrow>
        status_shown (extract_company_data_status fs' company_id) = Some COMPLETE"
    using extract_success_exists [of pickle_dump fs base company_id r fs'] by (simp add: shown)
  then show ?thesis
    by (simp add: shown get_extract_company_data_def)
qed

theorem status_reflects_snapshot_witness:
  "extract_company_data example_dump (disk submitted) (Parsed (Some example_base)) example_id
     = (Inr example_id, disk extracted)
   \<and> \<not> os_path_exists (disk submitted) (''data/pkl/'' @ example_id @ ''.pkl'')
   \<and> status_shown (extract_company_data_status (disk submitted) example_id) = Some RUNNING
   \<and> status_shown (extract_company_data_status (disk extracted) example_id) = Some COMPLETE"
proof -
  have gone: "\<not> os_path_exists (disk submitted) (''data/pkl/'' @ example_id @ ''.pkl'')"
    unfolding submitted_disk by (simp add: fs_eval example_id_def)
  show ?thesis
    using gone extraction_eval
      status_reflects_snapshot [of "disk submitted" example_id submitted "[]" "[]" example_dump
        example_base example_id "disk extracted"]
    by simp
qed

text \<open>
  C10. For an identifier with no snapshot, whether it was never submitted, is still being
  extracted, or belongs to an extraction that failed, the status query returns the
  \<open>Extracting data...\<close> fragment, which polls \<open>/extract-company-data/<company_id>\<close> again
  every 5 seconds. An extraction thread that fails before it writes leaves the files as
  they were, so the query answers the same after it.
\<close>

theorem unknown_identifier_reports_running:
  assumes "\<not> os_path_exists fs (''data/pkl/'' @ company_id @ ''.pkl'')"
  shows "extract_company_data_status fs company_id = running_div company_id
     \<and> status_shown (extract_company_data_status fs company_id) = Some RUNNING
     \<and> hx_get (extract_company_data_status fs company_id)
         = Some (''/extract-company-data/'' @ company_id)
     \<and> hx_trigger (extract_company_data_status fs company_id) = Some ''every 5s''
     \<and> ((\<forall>base. reply \<noteq> Parsed (Some base)) \<longrightarrow>
          extract_company_data_status
            (disk (thread_run pickle_dump \<lparr>disk = fs, threads = ts, clipboard = cb\<rparr> reply company_id))
            company_id
          = running_div company_id)"
  using assms extract_failure_keeps_disk [of reply pickle_dump fs company_id]
  by (simp add: extract_company_data_status_def running_div_def status_shown_def thread_run_def)

theorem unknown_identifier_reports_running_witness:
  "\<not> os_path_exists fresh (''data/pkl/'' @ ''never-submitted'' @ ''.pkl'')
   \<and> extract_company_data_status fresh ''never-submitted'' = running_div ''never-submitted''
   \<and> status_shown (extract_company_data_status fresh ''never-submitted'') = Some RUNNING
   \<and> extract_company_data_status
        (disk (thread_run example_dump \<lparr>disk = fresh, threads = [''never-submitted''], clipboard = []\<rparr>
                 GenerateFailed ''never-submitted''))
        ''never-submitted''
      = running_div ''never-submitted''"
proof -
  have h: "\<not> os_path_exists fresh (''data/pkl/'' @ ''never-submitted'' @ ''.pkl'')"
    by (simp add: fs_eval fresh_def)
  show ?thesis
    using h unknown_identifier_reports_running
      [OF h, of GenerateFailed example_dump "[''never-submitted'']" "[]"]
    by (simp add: status_shown_def running_div_def)
qed

text \<open>
  C8 does not hold of the code. The \<open>filename\<close> of a submission goes into
  \<open>f"data/temp/{filename}"\<close> as it came, and the file found there is moved to \<open>data/pdf\<close>.
  In the worked run the report is uploaded, submitted and extracted, and the status query
  shows COMPLETE; a second submission with the file name \<open>../pkl/<company_id>.pkl\<close> finds
  the snapshot and moves it away, and the status query for the same identifier shows
  RUNNING again.
\<close>

theorem status_reverts_after_resubmission:
  "status_shown (fst (get_extract_company_data extracted example_id)) = Some COMPLETE
   \<and> status_shown (fst (get_extract_company_data resubmitted example_id)) = Some RUNNING"
  unfolding extracted_disk resubmitted_disk
  by (simp add: get_extract_company_data_def status_shown_def fs_eval example_id_def
      complete_div_def running_div_def)

section \<open>The extraction thread and the snapshot\<close>

text \<open>
  C3. When the extraction thread stores a Company under its identifier and returns, loading
  that identifier gives the same Company back, in every field, provided pickle gives back
  the object it was given.
\<close>

theorem save_then_load:
  assumes "extract_company_data pickle_dump fs (Parsed (Some (CompanyBase.truncate c))) (id_field c)
             = (Inr r, fs')"
    and "pickle_load (pickle_dump c) = Inr c"
  shows "company pickle_load fs' (id_field c) = Inr c \<and> r = id_field c"
proof -
  from extract_parsed_success [OF assms(1)] obtain fs1 where
    w: "open_wb fs1 (''data/pkl/'' @ id_field c @ ''.pkl'') (pickle_dump c) = Inr fs'"
    and r: "r = id_field c"
    unfolding extend_truncate by blast
  from open_wb_then_rb [OF w] assms(2) r show ?thesis
    by (simp add: company_def)
qed

theorem save_then_load_witness:
  "extract_company_data example_dump (disk submitted)
       (Parsed (Some (CompanyBase.truncate example_company))) (id_field example_company)
     = (Inr example_id, disk extracted)
   \<and> example_load (example_dump example_company) = Inr example_company
   \<and> company example_load (disk extracted) (id_field example_company) = Inr example_company
   \<and> revenue (hd (data (financial_data (financials example_company)))) = Some 50
   \<and> ebitda (hd (data (financial_data (financials example_company)))) = None"
proof -
  have saved: "extract_company_data example_dump (disk submitted)
       (Parsed (Some (CompanyBase.truncate example_company))) (id_field example_company)
     = (Inr example_id, disk extracted)"
    using extraction_eval by (simp add: truncate_example id_field_example)
  have pickled: "example_load (example_dump example_company) = Inr example_company"
    by (simp add: example_load_def example_dump_def id_field_example)
  have "company example_load (disk extracted) (id_field example_company) = Inr example_company"
    using saved pickled
      save_then_load [of example_dump "disk submitted" example_company example_id
        "disk extracted" example_load]
    by blast
  with saved pickled show ?thesis
    by (simp add: example_data point_def)
qed

text \<open>
  C6. When the response does not validate against the schema, the client library leaves
  \<open>parsed\<close> empty and the thread ends in an exception at \<open>company_base.model_dump()\<close>: it
  returns no identifier, and the files are what they were, so no snapshot was written.
\<close>

theorem schema_violation_writes_nothing:
  "isl (fst (extract_company_data pickle_dump fs (Parsed None) company_id))
   \<and> snd (extract_company_data pickle_dump fs (Parsed None) company_id) = fs
   \<and> disk (thread_run pickle_dump sys (Parsed None) company_id) = disk sys
   \<and> os_path_exists (disk (thread_run pickle_dump sys (Parsed None) company_id))
         (''data/pkl/'' @ company_id @ ''.pkl'')
      = os_path_exists (disk sys) (''data/pkl/'' @ company_id @ ''.pkl'')"
proof -
  have kept: "snd (extract_company_data pickle_dump fs (Parsed None) company_id) = fs" for fs
    by (rule extract_failure_keeps_disk) simp
  have "isl (fst (extract_company_data pickle_dump fs (Parsed None) company_id))"
    by (simp add: extract_company_data_def Let_def split: sum.splits)
  with kept show ?thesis
    by (simp add: thread_run_def)
qed

section \<open>Submission\<close>

lemma path_above_working_directory:
  "os_path_exists (disk uploaded) ''data/temp/../../../app/data/temp/report.pdf''
   \<and> \<not> os_path_exists (disk uploaded) ''data/temp/../../../data/temp/report.pdf''
   \<and> os_path_exists (disk uploaded) ''data/temp/../../../../app/data/temp/./report.pdf''"
  by (simp add: uploaded_def fs_eval)





section \<open>Listing\<close>

lemma rfind_suffix: "rfind CHR ''.'' (xs @ ''.pkl'') = int (length xs)"
  by (induction xs) (simp_all add: Let_def)

lemma stem_pkl: "company_id \<noteq> [] \<Longrightarrow> stem (company_id @ ''.pkl'') = company_id"
  by (simp add: stem_def rfind_suffix Let_def)

lemma glob_pkl_listing:
  "glob_pkl fs =
     (if node_at fs (cwd fs) = Some Dir \<and> node_at fs (cwd fs @ [''data'']) = Some Dir
         \<and> node_at fs (cwd fs @ [''data'', ''pkl'']) = Some Dir
      then filter (suffix ''.pkl'') (listdir fs (cwd fs @ [''data'', ''pkl''])) else [])"
  by (auto simp: glob_pkl_def resolve_def start_def node_at_root split: option.splits node.splits)

lemma company_list_loop_entries:
  "company_list_loop pickle_load fs company_data files = Inr result \<Longrightarrow>
     \<exists>added. result = company_data @ added \<and> length added = length files \<and>
       (\<forall>i<length files. \<exists>b c.
          open_rb fs (''data/pkl/'' @ files ! i) = Inr b \<and> pickle_load b = Inr c \<and>
          added ! i = (value (name c), ''/company/'' @ stem (files ! i)))"
proof (induction files arbitrary: company_data)
  case Nil
  then show ?case by simp
next
  case (Cons f files)
  from Cons.prems obtain b c where b: "open_rb fs (''data/pkl/'' @ f) = Inr b"
    and c: "pickle_load b = Inr c"
    and rest: "company_list_loop pickle_load fs
                 (company_data @ [(value (name c), ''/company/'' @ stem f)]) files = Inr result"
    by (auto split: sum.splits)
  from Cons.IH [OF rest] obtain added where
    r: "result = (company_data @ [(value (name c), ''/company/'' @ stem f)]) @ added"
    and l: "length added = length files"
    and e: "\<forall>i<length files. \<exists>b c.
          open_rb fs (''data/pkl/'' @ files ! i) = Inr b \<and> pickle_load b = Inr c \<and>
          added ! i = (value (name c), ''/company/'' @ stem (files ! i))"
    by blast
  have "\<forall>i<length (f # files). \<exists>b' c'.
          open_rb fs (''data/pkl/'' @ (f # files) ! i) = Inr b' \<and> pickle_load b' = Inr c' \<and>
          ((value (name c), ''/company/'' @ stem f) # added) ! i
            = (value (name c'), ''/company/'' @ stem ((f # files) ! i))"
  proof (intro allI impI)
    fix i assume "i < length (f # files)"
    then show "\<exists>b' c'.
          open_rb fs (''data/pkl/'' @ (f # files) ! i) = Inr b' \<and> pickle_load b' = Inr c' \<and>
          ((value (name c), ''/company/'' @ stem f) # added) ! i
            = (value (name c'), ''/company/'' @ stem ((f # files) ! i))"
      using b c e by (cases i) auto
  qed
  with r l show ?case
    by (intro exI [of _ "(value (name c), ''/company/'' @ stem f) # added"]) simp
qed

lemma listed_eval:
  "get_company_list example_load (disk extracted) = Inr [(''Acme'', ''/company/'' @ example_id)]"
  unfolding extracted_disk
  by (simp add: get_company_list_def glob_pkl_def listdir_def fs_eval example_id_def
      example_load_def example_company_def example_base_def fact_def
      CompanyBase.extend_def Company.defs stem_def Let_def suffix_def)

text \<open>
  C9, as the code has it. When the list operation returns, it returns one pair for each
  entry of \<open>data/pkl\<close> whose name ends in \<open>.pkl\<close>, in the order of the directory listing:
  the display name of the record loaded from that file, and the link \<open>/company/<stem>\<close>,
  where the stem of \<open><company_id>.pkl\<close> is the identifier (for a non-empty identifier).
\<close>

theorem company_list_entries:
  assumes "get_company_list pickle_load fs = Inr result"
  shows "length result = length (glob_pkl fs)
     \<and> (\<forall>i<length result. \<exists>b c.
          open_rb fs (''data/pkl/'' @ glob_pkl fs ! i) = Inr b \<and> pickle_load b = Inr c \<and>
          result ! i = (value (name c), ''/company/'' @ stem (glob_pkl fs ! i)))
     \<and> glob_pkl fs =
         (if node_at fs (cwd fs) = Some Dir \<and> node_at fs (cwd fs @ [''data'']) = Some Dir
             \<and> node_at fs (cwd fs @ [''data'', ''pkl'']) = Some Dir
          then filter (suffix ''.pkl'') (listdir fs (cwd fs @ [''data'', ''pkl''])) else [])
     \<and> (company_id \<noteq> [] \<longrightarrow> stem (company_id @ ''.pkl'') = company_id)"
  using company_list_loop_entries [of pickle_load fs "[]" "glob_pkl fs" result] assms
    glob_pkl_listing [of fs] stem_pkl [of company_id]
  unfolding get_company_list_def by auto

theorem company_list_entries_witness:
  "get_company_list example_load (disk extracted) = Inr [(''Acme'', ''/company/'' @ example_id)]
   \<and> length [(''Acme'', ''/company/'' @ example_id)] = length (glob_pkl (disk extracted))
   \<and> stem (example_id @ ''.pkl'') = example_id"
  using company_list_entries [OF listed_eval, of example_id] listed_eval
  by (simp add: example_id_def)

text \<open>
  C9, as the claim states it, fails: after the worked run the store holds one snapshot,
  of the company Acme, and the list operation pairs the name with the link
  \<open>/company/<company_id>\<close>, not with the identifier itself.
\<close>

theorem company_list_returns_links:
  "get_company_list example_load (disk extracted) = Inr [(''Acme'', ''/company/'' @ example_id)]
   \<and> company example_load (disk extracted) example_id = Inr example_company
   \<and> [(''Acme'', ''/company/'' @ example_id)]
       \<noteq> [(value (name example_company), id_field example_company)]"
  using listed_eval unfolding extracted_disk
  by (simp add: company_def fs_eval example_load_def id_field_example example_id_def)

end
